theory Spec2Isabelle
  imports Main "HOL-Library.Char_ord" "HOL-Library.List_Lexorder" "HOL-Library.Multiset"
begin

section \<open>Python values, text and exceptions\<close>

text \<open>
  The module \<^verbatim>\<open>ibis_singlestore/ddl.py\<close> assembles SQL text. A Python \<^verbatim>\<open>str\<close> is modelled
  as a \<^typ>\<open>string\<close> whose characters are read as the code points U+0000 to U+00FF; a
  Python \<^verbatim>\<open>bytes\<close> value is a list of the same 256 characters read as bytes. An exception
  is a value of \<open>error\<close>, and a function that may raise returns \<open>error + 'a\<close> with the
  exception on the left.
\<close>

datatype error =
    NotImplementedError
  | ValueError string
  | IndexError
  | UnicodeDecodeError
  | OutsideLatin1
  | HostError string

abbreviation (input) squote :: char where "squote \<equiv> CHR 0x27"
abbreviation (input) dquote :: char where "dquote \<equiv> CHR 0x22"
abbreviation (input) newline :: char where "newline \<equiv> CHR 0x0A"

text \<open>\<^verbatim>\<open>sep.join(xs)\<close> on a list of strings.\<close>

fun str_join :: "string \<Rightarrow> string list \<Rightarrow> string" where
  "str_join sep [] = []"
| "str_join sep [x] = x"
| "str_join sep (x # y # ys) = x @ sep @ str_join sep (y # ys)"

text \<open>A string between single quotes, as the f-strings \<^verbatim>\<open>'{...}'\<close> of the module write it.\<close>

definition single_quoted :: "string \<Rightarrow> string" where
  "single_quoted s = squote # s @ [squote]"


text \<open>
  A value that may be \<^verbatim>\<open>None\<close>, a \<^verbatim>\<open>str\<close> or a \<^verbatim>\<open>bytes\<close>: what the library
  reference of a function descriptor holds.
\<close>

datatype pyval = PyNone | PyStr string | PyBytes string

subsection \<open>Decoding and encoding UTF-8\<close>

text \<open>
  \<^verbatim>\<open>str(value, 'utf-8')\<close>. One byte below 0x80 is the code point itself; the lead bytes
  0xC2 and 0xC3 with a continuation byte give the code points U+0080 to U+00FF. The bytes
  0x80 to 0xC1 and 0xF5 to 0xFF never start a sequence, and a lead byte without its
  continuation byte is malformed: Python raises \<^verbatim>\<open>UnicodeDecodeError\<close>. A lead byte 0xC4 to
  0xF4 starts a sequence that Python either rejects or decodes to a code point above
  U+00FF, which the strings of this model do not have: \<open>OutsideLatin1\<close> stands for both.
\<close>

definition is_continuation :: "char \<Rightarrow> bool" where
  "is_continuation c = (0x80 \<le> (of_char c :: nat) \<and> (of_char c :: nat) < 0xC0)"

fun decode_utf8 :: "string \<Rightarrow> error + string" where
  "decode_utf8 [] = Inr []"
| "decode_utf8 [b] =
     (let n = (of_char b :: nat) in
      if n < 0x80 then Inr [b]
      else if 0xC4 \<le> n \<and> n \<le> 0xF4 then Inl OutsideLatin1
      else Inl UnicodeDecodeError)"
| "decode_utf8 (b # c # cs) =
     (let n = (of_char b :: nat) in
      if n < 0x80 then
        (case decode_utf8 (c # cs) of Inl e \<Rightarrow> Inl e | Inr s \<Rightarrow> Inr (b # s))
      else if n = 0xC2 \<or> n = 0xC3 then
        (if is_continuation c then
           (case decode_utf8 cs of
              Inl e \<Rightarrow> Inl e
            | Inr s \<Rightarrow> Inr (char_of ((n - 0xC0) * 64 + ((of_char c :: nat) - 0x80)) # s))
         else Inl UnicodeDecodeError)
      else if 0xC4 \<le> n \<and> n \<le> 0xF4 then Inl OutsideLatin1
      else Inl UnicodeDecodeError)"

text \<open>\<^verbatim>\<open>bytes(s, 'utf-8')\<close> on a string of code points below U+0100.\<close>

definition encode_utf8_char :: "char \<Rightarrow> string" where
  "encode_utf8_char c =
     (let n = (of_char c :: nat) in
      if n < 0x80 then [c] else [char_of (0xC0 + n div 64), char_of (0x80 + n mod 64)])"

definition encode_utf8 :: "string \<Rightarrow> string" where
  "encode_utf8 s = concat (map encode_utf8_char s)"

subsection \<open>repr\<close>

definition hex_digit :: "nat \<Rightarrow> char" where
  "hex_digit n = ''0123456789abcdef'' ! (n mod 16)"

definition hex2 :: "nat \<Rightarrow> string" where
  "hex2 n = [hex_digit (n div 16), hex_digit n]"

text \<open>
  The quote \<^verbatim>\<open>repr\<close> chooses: a double quote when the text has a single quote and no double
  quote, a single quote otherwise.
\<close>

definition repr_quote :: "string \<Rightarrow> char" where
  "repr_quote s = (if squote \<in> set s \<and> dquote \<notin> set s then dquote else squote)"

text \<open>\<^verbatim>\<open>str.isprintable\<close> on U+0000 to U+00FF.\<close>

definition str_printable :: "char \<Rightarrow> bool" where
  "str_printable c =
     (let n = (of_char c :: nat) in (0x20 \<le> n \<and> n < 0x7F) \<or> (0xA1 \<le> n \<and> n \<noteq> 0xAD))"

definition repr_escape :: "(char \<Rightarrow> bool) \<Rightarrow> char \<Rightarrow> char \<Rightarrow> string" where
  "repr_escape printable q c =
     (if c = q \<or> c = CHR 0x5C then [CHR 0x5C, c]
      else if c = CHR 0x09 then [CHR 0x5C, CHR ''t'']
      else if c = CHR 0x0A then [CHR 0x5C, CHR ''n'']
      else if c = CHR 0x0D then [CHR 0x5C, CHR ''r'']
      else if printable c then [c]
      else [CHR 0x5C, CHR ''x''] @ hex2 (of_char c))"

definition repr_str :: "string \<Rightarrow> string" where
  "repr_str s = (let q = repr_quote s in q # concat (map (repr_escape str_printable q) s) @ [q])"

definition bytes_printable :: "char \<Rightarrow> bool" where
  "bytes_printable c = (0x20 \<le> (of_char c :: nat) \<and> (of_char c :: nat) < 0x7F)"

definition repr_bytes :: "string \<Rightarrow> string" where
  "repr_bytes b =
     (let q = repr_quote b in CHR ''b'' # q # concat (map (repr_escape bytes_printable q) b) @ [q])"

definition py_repr :: "pyval \<Rightarrow> string" where
  "py_repr v = (case v of PyNone \<Rightarrow> ''None'' | PyStr s \<Rightarrow> repr_str s | PyBytes b \<Rightarrow> repr_bytes b)"

text \<open>\<^verbatim>\<open>value or ''\<close>: the empty string replaces \<^verbatim>\<open>None\<close> and the empty \<^verbatim>\<open>str\<close> or \<^verbatim>\<open>bytes\<close>.\<close>

definition or_empty_str :: "pyval \<Rightarrow> pyval" where
  "or_empty_str v =
     (case v of
        PyNone \<Rightarrow> PyStr []
      | PyStr s \<Rightarrow> PyStr s
      | PyBytes b \<Rightarrow> if b = [] then PyStr [] else PyBytes b)"

subsection \<open>base64.b64encode\<close>

definition b64_char :: "nat \<Rightarrow> char" where
  "b64_char n =
     ''ABCDEFGHIJKLMNOPQRSTUVWXYZabcdefghijklmnopqrstuvwxyz0123456789+/'' ! (n mod 64)"

fun b64encode :: "string \<Rightarrow> string" where
  "b64encode [] = []"
| "b64encode [a] =
     (let x = (of_char a :: nat)
      in [b64_char (x div 4), b64_char ((x mod 4) * 16), CHR ''='', CHR ''=''])"
| "b64encode [a, b] =
     (let x = (of_char a :: nat); y = (of_char b :: nat)
      in [b64_char (x div 4), b64_char ((x mod 4) * 16 + y div 16),
          b64_char ((y mod 16) * 4), CHR ''=''])"
| "b64encode (a # b # c # rest) =
     (let x = (of_char a :: nat); y = (of_char b :: nat); z = (of_char c :: nat)
      in [b64_char (x div 4), b64_char ((x mod 4) * 16 + y div 16),
          b64_char ((y mod 16) * 4 + z div 64), b64_char z] @ b64encode rest)"

subsection \<open>json.dumps(value, indent=2, sort_keys=True)\<close>

text \<open>
  The values \<^verbatim>\<open>json.dumps\<close> is given: \<^verbatim>\<open>None\<close>, booleans, integers, strings, lists, and
  dicts with string keys. A dict is the list of its items in insertion order; its keys are
  distinct. Floating-point numbers are left out.
\<close>

datatype json =
    JNull
  | JBool bool
  | JInt int
  | JStr string
  | JList "json list"
  | JDict "(string \<times> json) list"

function nat_repr :: "nat \<Rightarrow> string" where
  "nat_repr n =
     (if n < 10 then [''0123456789'' ! n]
      else nat_repr (n div 10) @ [''0123456789'' ! (n mod 10)])"
  by pat_completeness auto
termination
  by (relation "measure id") auto

declare nat_repr.simps [simp del]

definition int_repr :: "int \<Rightarrow> string" where
  "int_repr i = (if i < 0 then CHR ''-'' # nat_repr (nat (- i)) else nat_repr (nat i))"

text \<open>
  The string encoder with \<^verbatim>\<open>ensure_ascii\<close>, the default: the backslash, the double quote
  and every character outside the range from space to \<^verbatim>\<open>~\<close> are escaped.
\<close>

definition json_escape :: "char \<Rightarrow> string" where
  "json_escape c =
     (if c = CHR 0x5C then [CHR 0x5C, CHR 0x5C]
      else if c = dquote then [CHR 0x5C, dquote]
      else if c = CHR 0x08 then [CHR 0x5C, CHR ''b'']
      else if c = CHR 0x0C then [CHR 0x5C, CHR ''f'']
      else if c = CHR 0x0A then [CHR 0x5C, CHR ''n'']
      else if c = CHR 0x0D then [CHR 0x5C, CHR ''r'']
      else if c = CHR 0x09 then [CHR 0x5C, CHR ''t'']
      else if 0x20 \<le> (of_char c :: nat) \<and> (of_char c :: nat) \<le> 0x7E then [c]
      else [CHR 0x5C, CHR ''u'', CHR ''0'', CHR ''0''] @ hex2 (of_char c))"

definition encode_basestring_ascii :: "string \<Rightarrow> string" where
  "encode_basestring_ascii s = dquote # concat (map json_escape s) @ [dquote]"

text \<open>A line break followed by the indentation of a nesting level, two spaces per level.\<close>

definition newline_indent :: "nat \<Rightarrow> string" where
  "newline_indent level = newline # replicate (2 * level) CHR '' ''"

text \<open>
  The encoder at a nesting level. An empty list or dict is written \<^verbatim>\<open>[]\<close> or \<^verbatim>\<open>{}\<close>;
  otherwise each item is on its own line, one level deeper, the items separated by a comma,
  and the closing bracket is on its own line at the level of the opening one. The items of
  a dict are sorted by key (\<^verbatim>\<open>sorted(dct.items())\<close>), key and value separated by \<^verbatim>\<open>: \<close>.
\<close>

function iterencode :: "nat \<Rightarrow> json \<Rightarrow> string" where
  "iterencode level JNull = ''null''"
| "iterencode level (JBool b) = (if b then ''true'' else ''false'')"
| "iterencode level (JInt i) = int_repr i"
| "iterencode level (JStr s) = encode_basestring_ascii s"
| "iterencode level (JList xs) =
     (if xs = [] then ''[]''
      else ''['' @ newline_indent (Suc level)
           @ str_join ('','' @ newline_indent (Suc level)) (map (iterencode (Suc level)) xs)
           @ newline_indent level @ '']'')"
| "iterencode level (JDict kvs) =
     (if kvs = [] then ''{}''
      else ''{'' @ newline_indent (Suc level)
           @ str_join ('','' @ newline_indent (Suc level))
               (map (\<lambda>kv. encode_basestring_ascii (fst kv) @ '': '' @ iterencode (Suc level) (snd kv))
                  (sort_key fst kvs))
           @ newline_indent level @ ''}'')"
  by pat_completeness auto
termination
proof (relation "measure (\<lambda>(level, j). size j)")
  show "wf (measure (\<lambda>(level, j). size j))" by simp
next
  fix level :: nat and xs :: "json list" and x
  assume "x \<in> set xs"
  then have "size x < size (JList xs)"
    by (induction xs) auto
  then show "((Suc level, x), (level, JList xs)) \<in> measure (\<lambda>(level, j). size j)"
    by simp
next
  fix level :: nat and kvs :: "(string \<times> json) list" and kv
  assume "kv \<in> set (sort_key fst kvs)"
  then have "kv \<in> set kvs" by simp
  then have "size (snd kv) < size (JDict kvs)"
    by (induction kvs) auto
  then show "((Suc level, snd kv), (level, JDict kvs)) \<in> measure (\<lambda>(level, j). size j)"
    by simp
qed

definition json_dumps :: "json \<Rightarrow> string" where
  "json_dumps v = iterencode 0 v"

subsection \<open>str.splitlines and str.rstrip\<close>

text \<open>The line boundaries of \<^verbatim>\<open>splitlines\<close> among U+0000 to U+00FF.\<close>

definition is_linebreak :: "char \<Rightarrow> bool" where
  "is_linebreak c = ((of_char c :: nat) \<in> {0x0A, 0x0B, 0x0C, 0x0D, 0x1C, 0x1D, 0x1E, 0x85})"

text \<open>
  \<open>splitlines_from cur s\<close> reads \<open>s\<close> with the line \<open>cur\<close> open. A carriage return followed
  by a line feed is one boundary. Text after the last boundary is a line when it is not
  empty.
\<close>

fun splitlines_from :: "string \<Rightarrow> string \<Rightarrow> string list" where
  "splitlines_from cur [] = (if cur = [] then [] else [cur])"
| "splitlines_from cur [c] = (if is_linebreak c then [cur] else [cur @ [c]])"
| "splitlines_from cur (c # d # cs) =
     (if c = CHR 0x0D \<and> d = CHR 0x0A then cur # splitlines_from [] cs
      else if is_linebreak c then cur # splitlines_from [] (d # cs)
      else splitlines_from (cur @ [c]) (d # cs))"

definition splitlines :: "string \<Rightarrow> string list" where
  "splitlines s = splitlines_from [] s"

text \<open>\<^verbatim>\<open>str.isspace\<close> on one character among U+0000 to U+00FF.\<close>

definition is_space :: "char \<Rightarrow> bool" where
  "is_space c =
     ((of_char c :: nat) \<in> {0x09, 0x0A, 0x0B, 0x0C, 0x0D, 0x1C, 0x1D, 0x1E, 0x1F, 0x20, 0x85, 0xA0})"

definition rstrip :: "string \<Rightarrow> string" where
  "rstrip s = rev (dropWhile is_space (rev s))"

section \<open>The host framework\<close>

text \<open>
  The module imports its formatting helpers from the host framework:
  \<^verbatim>\<open>BaseDDL._get_scoped_name\<close>, \<^verbatim>\<open>type_to_sql_string\<close>, \<^verbatim>\<open>format_schema\<close> and
  \<^verbatim>\<open>format_tblproperties\<close>. They are parameters of the model. The type translator may fail
  for a type without a spelling in the dialect, and so may the schema formatter, which
  spells the type of every column.
\<close>

record ('ty, 'schema) host =
  get_scoped_name :: "string \<Rightarrow> string option \<Rightarrow> string"
  type_to_sql_string :: "'ty \<Rightarrow> error + string"
  format_schema :: "'schema \<Rightarrow> error + string"
  format_tblproperties :: "(string \<times> string) list \<Rightarrow> string"

section \<open>a2u\<close>

text \<open>
  \<^verbatim>\<open>a2u(value)\<close> with the default encoding: a \<^verbatim>\<open>bytes\<close> value is decoded, any other value
  goes through \<^verbatim>\<open>str\<close>, which writes \<^verbatim>\<open>None\<close> as the text \<^verbatim>\<open>None\<close>.
\<close>

definition a2u :: "pyval \<Rightarrow> error + string" where
  "a2u v = (case v of PyBytes b \<Rightarrow> decode_utf8 b | PyStr s \<Rightarrow> Inr s | PyNone \<Rightarrow> Inr ''None'')"

section \<open>CreateTableParquet\<close>

record 'schema CreateTableParquet =
  ctp_table_name :: string
  ctp_path :: string
  ctp_example_file :: "string option"
  ctp_example_table :: "string option"
  ctp_schema :: "'schema option"
  ctp_external :: bool

text \<open>
  \<^verbatim>\<open>CreateTableParquet._pieces\<close>. The generator yields the source clause chosen by the
  \<^verbatim>\<open>if\<close>/\<^verbatim>\<open>elif\<close> chain, then what the inherited \<^verbatim>\<open>self._storage()\<close> and
  \<^verbatim>\<open>self._location()\<close> return for this descriptor, here the arguments \<open>storage\<close> and
  \<open>location\<close>. Each of the two may be \<^verbatim>\<open>None\<close> (the host returns no location clause for
  an empty path), so a piece is a \<^typ>\<open>string option\<close>. With no source the generator
  raises before anything is yielded; with the schema as the source, a failure of the host's
  \<^verbatim>\<open>format_schema\<close> is the failure of the generator.
\<close>

definition CreateTableParquet_pieces ::
  "('ty, 'schema) host \<Rightarrow> string option \<Rightarrow> string option
     \<Rightarrow> ('schema, 'z) CreateTableParquet_scheme \<Rightarrow> error + string option list"
where
  "CreateTableParquet_pieces h storage location self =
     (case ctp_example_file self of
        Some f \<Rightarrow> Inr [Some (''LIKE PARQUET '' @ single_quoted f), storage, location]
      | None \<Rightarrow>
          (case ctp_example_table self of
             Some t \<Rightarrow> Inr [Some (''LIKE '' @ t), storage, location]
           | None \<Rightarrow>
               (case ctp_schema self of
                  Some sc \<Rightarrow>
                    (case format_schema h sc of
                       Inl e \<Rightarrow> Inl e
                     | Inr columns \<Rightarrow> Inr [Some columns, storage, location])
                | None \<Rightarrow> Inl NotImplementedError)))"

section \<open>Storage formats\<close>

record DelimitedFormat =
  df_path :: string
  df_delimiter :: "string option"
  df_escapechar :: "string option"
  df_na_rep :: "string option"
  df_lineterminator :: "string option"

text \<open>
  \<^verbatim>\<open>DelimitedFormat.to_ddl\<close>: the clauses in the order the generator yields them. Each
  \<^verbatim>\<open>yield\<close> appends one clause to the output so far.
\<close>

definition DelimitedFormat_to_ddl ::
  "('ty, 'schema) host \<Rightarrow> 'z DelimitedFormat_scheme \<Rightarrow> string list"
where
  "DelimitedFormat_to_ddl h self =
     (let out = [''ROW FORMAT DELIMITED''];
          out = (case df_delimiter self of
                   None \<Rightarrow> out
                 | Some d \<Rightarrow> out @ [''FIELDS TERMINATED BY '' @ single_quoted d]);
          out = (case df_escapechar self of
                   None \<Rightarrow> out
                 | Some e \<Rightarrow> out @ [''ESCAPED BY '' @ single_quoted e]);
          out = (case df_lineterminator self of
                   None \<Rightarrow> out
                 | Some l \<Rightarrow> out @ [''LINES TERMINATED BY '' @ single_quoted l]);
          out = out @ [''LOCATION '' @ single_quoted (df_path self)];
          out = (case df_na_rep self of
                   None \<Rightarrow> out
                 | Some n \<Rightarrow> out @ [format_tblproperties h [(''serialization.null.format'', n)]])
      in out)"

record AvroFormat =
  av_path :: string
  av_avro_schema :: json

text \<open>\<^verbatim>\<open>AvroFormat.to_ddl\<close>.\<close>

definition AvroFormat_to_ddl ::
  "('ty, 'schema) host \<Rightarrow> 'z AvroFormat_scheme \<Rightarrow> string list"
where
  "AvroFormat_to_ddl h self =
     (let schema = json_dumps (av_avro_schema self);
          schema = str_join [newline] (map rstrip (splitlines schema));
          props = [(''avro.schema.literal'', schema)]
      in [''STORED AS AVRO'', ''LOCATION '' @ single_quoted (av_path self),
          format_tblproperties h props])"

section \<open>Function signatures\<close>

text \<open>\<^verbatim>\<open>string.ascii_letters\<close>, and reading it at an index: past the end it raises.\<close>

definition ascii_letters :: string where
  "ascii_letters = ''abcdefghijklmnopqrstuvwxyzABCDEFGHIJKLMNOPQRSTUVWXYZ''"

definition letter_at :: "nat \<Rightarrow> error + char" where
  "letter_at i = (if i < length ascii_letters then Inr (ascii_letters ! i) else Inl IndexError)"

text \<open>
  The list comprehension of \<^verbatim>\<open>_singlestore_input_signature\<close>, from index \<open>i\<close> on. For each
  input the letter is read first, then the type is translated; the first failure ends the
  comprehension.
\<close>

fun input_params :: "('ty \<Rightarrow> error + string) \<Rightarrow> nat \<Rightarrow> 'ty list \<Rightarrow> error + string list" where
  "input_params tts i [] = Inr []"
| "input_params tts i (x # xs) =
     (case letter_at i of
        Inl e \<Rightarrow> Inl e
      | Inr c \<Rightarrow>
          (case tts x of
             Inl e \<Rightarrow> Inl e
           | Inr t \<Rightarrow>
               (case input_params tts (Suc i) xs of
                  Inl e \<Rightarrow> Inl e
                | Inr ps \<Rightarrow> Inr (([c] @ '' '' @ t @ '' NOT NULL'') # ps))))"

definition singlestore_input_signature :: "('ty \<Rightarrow> error + string) \<Rightarrow> 'ty list \<Rightarrow> error + string" where
  "singlestore_input_signature tts inputs =
     (case input_params tts 0 inputs of Inl e \<Rightarrow> Inl e | Inr ps \<Rightarrow> Inr (str_join '', '' ps))"

section \<open>Function descriptors and statements\<close>

text \<open>
  The function descriptor comes from the module \<^verbatim>\<open>udf\<close>. The statements read its symbol,
  inputs, output and library; a scalar function also carries its language and library
  type with the constants they are compared with, an aggregate function its five hooks.
\<close>

record 'ty func =
  fn_name :: string
  fn_symbol :: string
  fn_inputs :: "'ty list"
  fn_output :: 'ty
  fn_library :: pyval

record ('ty, 'lang, 'kind) udf = "'ty func" +
  fn_language :: 'lang
  fn_LANGUAGE_WASM :: 'lang
  fn_LANGUAGE_PYTHON :: 'lang
  fn_type :: 'kind
  fn_TYPE_FILE :: 'kind
  fn_TYPE_MODULE :: 'kind

record 'ty uda = "'ty func" +
  fn_init_fn :: "string option"
  fn_update_fn :: "string option"
  fn_merge_fn :: "string option"
  fn_serialize_fn :: "string option"
  fn_finalize_fn :: "string option"

record 'f CreateFunction =
  cf_func :: 'f
  cf_name :: string
  cf_database :: "string option"

text \<open>\<^verbatim>\<open>CreateFunction.__init__\<close>: \<^verbatim>\<open>name or func.name\<close>.\<close>

definition CreateFunction_init ::
  "('ty, 'm) func_scheme \<Rightarrow> string option \<Rightarrow> string option \<Rightarrow> ('ty, 'm) func_scheme CreateFunction"
where
  "CreateFunction_init func name database =
     \<lparr>cf_func = func,
      cf_name = (case name of None \<Rightarrow> fn_name func
                 | Some n \<Rightarrow> if n \<noteq> [] then n else fn_name func),
      cf_database = database\<rparr>"

text \<open>\<^verbatim>\<open>CreateFunction._singlestore_signature\<close>.\<close>

definition CreateFunction_singlestore_signature ::
  "('ty, 'schema) host \<Rightarrow> (('ty, 'm) func_scheme, 'y) CreateFunction_scheme \<Rightarrow> error + string"
where
  "CreateFunction_singlestore_signature h self =
     (let scoped_name = get_scoped_name h (fn_symbol (cf_func self)) (cf_database self)
      in case singlestore_input_signature (type_to_sql_string h) (fn_inputs (cf_func self)) of
           Inl e \<Rightarrow> Inl e
         | Inr input_sig \<Rightarrow>
             (case type_to_sql_string h (fn_output (cf_func self)) of
                Inl e \<Rightarrow> Inl e
              | Inr output_sig \<Rightarrow>
                  Inr (scoped_name @ ''('' @ input_sig @ '') RETURNS '' @ output_sig
                       @ '' NOT NULL'')))"

text \<open>
  \<^verbatim>\<open>CreateUDF.compile\<close>. The signature is built first, then the language is compared with
  the two constants, then the library type. The message of the first \<^verbatim>\<open>ValueError\<close> is the
  text \<^verbatim>\<open>Unsupported function language: \<close>, then \<^verbatim>\<open>a2u(self.func.library)\<close>, then a single
  quote.
\<close>

definition CreateUDF_compile ::
  "('ty, 'schema) host \<Rightarrow> (('ty, 'lang, 'kind, 'z) udf_scheme, 'y) CreateFunction_scheme
     \<Rightarrow> error + string"
where
  "CreateUDF_compile h self =
     (let create_decl = ''CREATE OR REPLACE FUNCTION''; f = cf_func self
      in case CreateFunction_singlestore_signature h self of
           Inl e \<Rightarrow> Inl e
         | Inr singlestore_sig \<Rightarrow>
             (case (if fn_language f = fn_LANGUAGE_WASM f then Inr ''AS WASM''
                    else if fn_language f = fn_LANGUAGE_PYTHON f then Inr ''AS PYTHON''
                    else (case a2u (fn_library f) of
                            Inl e \<Rightarrow> Inl e
                          | Inr l \<Rightarrow>
                              Inl (ValueError (''Unsupported function language: '' @ l @ [squote]))))
              of
                Inl e \<Rightarrow> Inl e
              | Inr param_line \<Rightarrow>
                  (case (if fn_type f = fn_TYPE_FILE f then
                           (case a2u (fn_library f) of
                              Inl e \<Rightarrow> Inl e
                            | Inr l \<Rightarrow> Inr (param_line @ '' INFILE '' @ single_quoted l))
                         else if fn_type f = fn_TYPE_MODULE f then
                           (let library = encode_utf8 (py_repr (or_empty_str (fn_library f)))
                            in Inr (param_line @ '' '' @ single_quoted (b64encode library)))
                         else Inl (ValueError ''Unsupported function format''))
                   of
                     Inl e \<Rightarrow> Inl e
                   | Inr param_line \<Rightarrow>
                       Inr (str_join '' '' [create_decl, singlestore_sig, param_line]))))"

text \<open>
  \<^verbatim>\<open>CreateUDA.compile\<close>. \<open>fn_values\<close> pairs each name of \<^verbatim>\<open>fn_names\<close> with what
  \<^verbatim>\<open>getattr(self.func, fn)\<close> reads; the loop appends a token for each value that is not
  \<^verbatim>\<open>None\<close>.
\<close>

definition fn_values :: "('ty, 'z) uda_scheme \<Rightarrow> (string \<times> string option) list" where
  "fn_values f =
     [(''init_fn'', fn_init_fn f), (''update_fn'', fn_update_fn f), (''merge_fn'', fn_merge_fn f),
      (''serialize_fn'', fn_serialize_fn f), (''finalize_fn'', fn_finalize_fn f)]"

definition append_hook :: "string list \<Rightarrow> string \<times> string option \<Rightarrow> string list" where
  "append_hook tokens fv =
     (case snd fv of
        None \<Rightarrow> tokens
      | Some v \<Rightarrow> tokens @ [fst fv @ [CHR ''='', dquote] @ v @ [dquote]])"

definition CreateUDA_compile ::
  "('ty, 'schema) host \<Rightarrow> (('ty, 'z) uda_scheme, 'y) CreateFunction_scheme \<Rightarrow> error + string"
where
  "CreateUDA_compile h self =
     (let create_decl = ''CREATE OR REPLACE AGGREGATE FUNCTION''
      in case CreateFunction_singlestore_signature h self of
           Inl e \<Rightarrow> Inl e
         | Inr singlestore_sig \<Rightarrow>
             (case a2u (fn_library (cf_func self)) of
                Inl e \<Rightarrow> Inl e
              | Inr l \<Rightarrow>
                  (let tokens = [''AS INFILE '' @ single_quoted l];
                       tokens = foldl append_hook tokens (fn_values (cf_func self))
                   in Inr (str_join '' '' [create_decl, singlestore_sig] @ '' ''
                           @ str_join [newline] tokens))))"

section \<open>DropFunction\<close>

record 'ty DropFunction =
  drf_name :: string
  drf_inputs :: "'ty list"
  drf_database :: "string option"

text \<open>\<^verbatim>\<open>DropFunction._singlestore_signature\<close>.\<close>

definition DropFunction_singlestore_signature ::
  "('ty, 'schema) host \<Rightarrow> ('ty, 'z) DropFunction_scheme \<Rightarrow> error + string"
where
  "DropFunction_singlestore_signature h self =
     (let full_name = get_scoped_name h (drf_name self) (drf_database self)
      in case singlestore_input_signature (type_to_sql_string h) (drf_inputs self) of
           Inl e \<Rightarrow> Inl e
         | Inr input_sig \<Rightarrow> Inr (full_name @ ''('' @ input_sig @ '')''))"

section \<open>ListFunction\<close>

record ListFunction =
  lf_database :: string
  lf_like :: "string option"
  lf_aggregate :: bool

text \<open>
  \<^verbatim>\<open>ListFunction.compile\<close>: the statement is built by successive \<^verbatim>\<open>+=\<close>; the pattern is
  tested with \<^verbatim>\<open>if self.like:\<close>, which is false for \<^verbatim>\<open>None\<close> and for the empty string.
\<close>

definition ListFunction_compile :: "'z ListFunction_scheme \<Rightarrow> string" where
  "ListFunction_compile self =
     (let statement = ''SHOW '';
          statement = (if lf_aggregate self then statement @ ''AGGREGATE '' else statement);
          statement = statement @ ''FUNCTIONS IN '' @ lf_database self;
          statement = (case lf_like self of
                         None \<Rightarrow> statement
                       | Some p \<Rightarrow> if p \<noteq> [] then statement @ '' LIKE '' @ single_quoted p
                                   else statement)
      in statement)"

section \<open>The hook clause of the specification\<close>

text \<open>
  The clause of one lifecycle hook in the words of the specification:
  \<^verbatim>\<open>hookname="expression"\<close> for a hook with a value, nothing for a hook without.
\<close>

definition hook_clause :: "string \<Rightarrow> string option \<Rightarrow> string list" where
  "hook_clause name v =
     (case v of None \<Rightarrow> [] | Some e \<Rightarrow> [name @ [CHR ''='', dquote] @ e @ [dquote]])"

section \<open>Text whose lines end in no white space\<close>

text \<open>
  \<open>tidy_from p s\<close> reads the text \<open>s\<close>, where \<open>p\<close> says that the character before it is not
  white space: every line feed in \<open>s\<close> follows a character that is not white space, and
  \<open>s\<close> has no other line boundary. \<open>ends_tidy p s\<close> says the same of the end of \<open>s\<close>. A
  text is \<open>tidy\<close> when it is not empty, none of its lines is empty or ends in white space,
  and line feeds are its only line boundaries.
\<close>

fun tidy_from :: "bool \<Rightarrow> string \<Rightarrow> bool" where
  "tidy_from p [] = True"
| "tidy_from p (c # cs) =
     (if c = newline then p \<and> tidy_from False cs
      else \<not> is_linebreak c \<and> tidy_from (\<not> is_space c) cs)"

definition ends_tidy :: "bool \<Rightarrow> string \<Rightarrow> bool" where
  "ends_tidy p s = (if s = [] then p else \<not> is_space (last s))"

definition tidy :: "string \<Rightarrow> bool" where
  "tidy s = (s \<noteq> [] \<and> tidy_from False s \<and> \<not> is_space (last s))"

section \<open>A host instance for the examples\<close>

text \<open>
  The examples below evaluate the model with these stand-ins for the host's helpers: a
  name qualified by its database, two type spellings, a parenthesised column list and a
  parenthesised list of quoted properties. Any other functions could take their place; the
  theorems hold for every host.
\<close>

definition sample_scoped_name :: "string \<Rightarrow> string option \<Rightarrow> string" where
  "sample_scoped_name name database =
     (case database of None \<Rightarrow> name | Some d \<Rightarrow> d @ ''.'' @ name)"

definition sample_type_to_sql_string :: "string \<Rightarrow> error + string" where
  "sample_type_to_sql_string t =
     (if t = ''int32'' then Inr ''INT''
      else if t = ''string'' then Inr ''VARCHAR''
      else Inl (HostError ''UnsupportedTypeError''))"

fun sample_columns :: "(string \<times> string) list \<Rightarrow> error + string list" where
  "sample_columns [] = Inr []"
| "sample_columns (c # cs) =
     (case sample_type_to_sql_string (snd c) of
        Inl e \<Rightarrow> Inl e
      | Inr t \<Rightarrow>
          (case sample_columns cs of
             Inl e \<Rightarrow> Inl e
           | Inr rest \<Rightarrow> Inr ((fst c @ '' '' @ t) # rest)))"

definition sample_format_schema :: "(string \<times> string) list \<Rightarrow> error + string" where
  "sample_format_schema cols =
     (case sample_columns cols of
        Inl e \<Rightarrow> Inl e
      | Inr cs \<Rightarrow> Inr (''('' @ str_join '', '' cs @ '')''))"

definition sample_format_tblproperties :: "(string \<times> string) list \<Rightarrow> string" where
  "sample_format_tblproperties props =
     ''('' @ str_join '', '' (map (\<lambda>p. single_quoted (fst p) @ ''='' @ single_quoted (snd p)) props) @ '')''"

definition sample_host :: "(string, (string \<times> string) list) host" where
  "sample_host =
     \<lparr>get_scoped_name = sample_scoped_name,
      type_to_sql_string = sample_type_to_sql_string,
      format_schema = sample_format_schema,
      format_tblproperties = sample_format_tblproperties\<rparr>"

section \<open>Properties of ListFunction\<close>

text \<open>
  Claim C9. A ListFunction whose like-pattern is the empty string compiles to exactly the
  string it compiles to with the pattern unset: \<^verbatim>\<open>SHOW \<close>, then \<^verbatim>\<open>AGGREGATE \<close> when the
  aggregate flag is set, then \<^verbatim>\<open>FUNCTIONS IN <database>\<close>, and no LIKE clause.
\<close>

theorem ListFunction_empty_like_omitted:
  "ListFunction_compile (self\<lparr>lf_like := Some ''''\<rparr>) = ListFunction_compile (self\<lparr>lf_like := None\<rparr>)
   \<and> ListFunction_compile (self\<lparr>lf_like := Some ''''\<rparr>)
       = ''SHOW '' @ (if lf_aggregate self then ''AGGREGATE '' else '''') @ ''FUNCTIONS IN '' @ lf_database self"
  by (simp add: ListFunction_compile_def)

section \<open>Properties of the function signature\<close>

lemma length_ascii_letters: "length ascii_letters = 52"
  by (simp add: ascii_letters_def)

lemma letter_at_simps:
  "i < 52 \<Longrightarrow> letter_at i = Inr (ascii_letters ! i)"
  "52 \<le> i \<Longrightarrow> letter_at i = Inl IndexError"
  by (simp_all add: letter_at_def length_ascii_letters)

lemma input_params_ok:
  "i + length xs \<le> 52 \<Longrightarrow> (\<And>x. x \<in> set xs \<Longrightarrow> tts x = Inr (spelling x)) \<Longrightarrow>
   input_params tts i xs
     = Inr (map (\<lambda>p. [ascii_letters ! fst p] @ '' '' @ spelling (snd p) @ '' NOT NULL'')
              (enumerate i xs))"
proof (induction xs arbitrary: i)
  case Nil
  then show ?case by simp
next
  case (Cons x xs)
  from Cons.prems have "i < 52" and "Suc i + length xs \<le> 52" by simp_all
  moreover have "tts x = Inr (spelling x)" using Cons.prems by simp
  moreover have "\<And>y. y \<in> set xs \<Longrightarrow> tts y = Inr (spelling y)" using Cons.prems by simp
  ultimately show ?case
    using Cons.IH [of "Suc i"] by (simp add: letter_at_simps)
qed

lemma input_params_too_many:
  "52 < i + length xs \<Longrightarrow> xs \<noteq> [] \<Longrightarrow> \<exists>e. input_params tts i xs = Inl e"
proof (induction xs arbitrary: i)
  case Nil
  then show ?case by simp
next
  case (Cons x xs)
  show ?case
  proof (cases "i < 52")
    case False
    then show ?thesis by (simp add: letter_at_simps)
  next
    case True
    with Cons.prems have "52 < Suc i + length xs" and "xs \<noteq> []" by auto
    then obtain e where "input_params tts (Suc i) xs = Inl e"
      using Cons.IH by blast
    with True show ?thesis
      by (simp add: letter_at_simps split: sum.splits)
  qed
qed

lemma input_params_index_error:
  "52 < i + length xs \<Longrightarrow> xs \<noteq> [] \<Longrightarrow> (\<And>x. x \<in> set (take (52 - i) xs) \<Longrightarrow> \<exists>t. tts x = Inr t) \<Longrightarrow>
   input_params tts i xs = Inl IndexError"
proof (induction xs arbitrary: i)
  case Nil
  then show ?case by simp
next
  case (Cons x xs)
  show ?case
  proof (cases "i < 52")
    case False
    then show ?thesis by (simp add: letter_at_simps)
  next
    case True
    then have "52 - i = Suc (52 - Suc i)" by simp
    then have tk: "take (52 - i) (x # xs) = x # take (52 - Suc i) xs"
      by (simp only: take_Suc_Cons)
    from True Cons.prems have "52 < Suc i + length xs" and "xs \<noteq> []" by auto
    moreover have "\<And>y. y \<in> set (take (52 - Suc i) xs) \<Longrightarrow> \<exists>t. tts y = Inr t"
      using Cons.prems(3) tk by simp
    ultimately have rec: "input_params tts (Suc i) xs = Inl IndexError"
      using Cons.IH by blast
    obtain t where "tts x = Inr t"
      using Cons.prems(3) [of x] tk by auto
    with True rec show ?thesis
      by (simp add: letter_at_simps)
  qed
qed

lemma ascii_letters_alphabet:
  "ascii_letters = map char_of [97..<123::nat] @ map char_of [65..<91::nat]"
  by code_simp

lemma distinct_ascii_letters: "distinct ascii_letters"
  by (simp add: ascii_letters_def)

text \<open>
  Claim C6. For a list of at most 52 input types whose types all have a spelling, the
  signature gives parameter \<open>i\<close> (counted from 0) the letter at position \<open>i\<close> of
  \<^verbatim>\<open>a..z\<close> followed by \<^verbatim>\<open>A..Z\<close>, renders it as \<^verbatim>\<open><letter> <type> NOT NULL\<close>, and joins
  the parameters with a comma and a space; the letters of one signature are distinct. The
  signature of DropFunction wraps the same text in the scoped name and parentheses.
\<close>

theorem input_signature_letters:
  assumes "length inputs \<le> 52"
    and "\<And>x. x \<in> set inputs \<Longrightarrow> type_to_sql_string h x = Inr (spelling x)"
  shows "singlestore_input_signature (type_to_sql_string h) inputs
           = Inr (str_join '', ''
                    (map (\<lambda>p. [ascii_letters ! fst p] @ '' '' @ spelling (snd p) @ '' NOT NULL'')
                       (enumerate 0 inputs)))
         \<and> ascii_letters = map char_of [97..<123::nat] @ map char_of [65..<91::nat]
         \<and> distinct (map (\<lambda>p. ascii_letters ! fst p) (enumerate 0 inputs))
         \<and> (drf_inputs d = inputs \<longrightarrow>
              DropFunction_singlestore_signature h d
                = Inr (get_scoped_name h (drf_name d) (drf_database d) @ ''(''
                       @ str_join '', ''
                           (map (\<lambda>p. [ascii_letters ! fst p] @ '' '' @ spelling (snd p) @ '' NOT NULL'')
                              (enumerate 0 inputs))
                       @ '')''))"
proof -
  have sig: "singlestore_input_signature (type_to_sql_string h) inputs
           = Inr (str_join '', ''
                    (map (\<lambda>p. [ascii_letters ! fst p] @ '' '' @ spelling (snd p) @ '' NOT NULL'')
                       (enumerate 0 inputs)))"
    using input_params_ok [of 0 inputs "type_to_sql_string h" spelling] assms
    by (simp add: singlestore_input_signature_def)
  have "map (\<lambda>p. ascii_letters ! fst p) (enumerate 0 inputs) = take (length inputs) ascii_letters"
    using assms(1)
    by (intro nth_equalityI) (simp_all add: length_ascii_letters nth_enumerate_eq)
  then have dist: "distinct (map (\<lambda>p. ascii_letters ! fst p) (enumerate 0 inputs))"
    using distinct_ascii_letters by (simp add: distinct_take)
  have drop: "drf_inputs d = inputs \<longrightarrow>
              DropFunction_singlestore_signature h d
                = Inr (get_scoped_name h (drf_name d) (drf_database d) @ ''(''
                       @ str_join '', ''
                           (map (\<lambda>p. [ascii_letters ! fst p] @ '' '' @ spelling (snd p) @ '' NOT NULL'')
                              (enumerate 0 inputs))
                       @ '')'')"
    using sig by (simp add: DropFunction_singlestore_signature_def)
  from sig dist drop ascii_letters_alphabet show ?thesis by blast
qed

theorem input_signature_letters_witness:
  "singlestore_input_signature (type_to_sql_string sample_host) [''int32'', ''string'']
     = Inr ''a INT NOT NULL, b VARCHAR NOT NULL''
   \<and> DropFunction_singlestore_signature sample_host
        \<lparr>drf_name = ''f'', drf_inputs = [''int32'', ''string''], drf_database = Some ''db''\<rparr>
     = Inr ''db.f(a INT NOT NULL, b VARCHAR NOT NULL)''"
proof -
  have len: "length [''int32'', ''string''] \<le> 52" by simp
  have ok: "\<And>x. x \<in> set [''int32'', ''string''] \<Longrightarrow>
      type_to_sql_string sample_host x = Inr (if x = ''int32'' then ''INT'' else ''VARCHAR'')"
    by (auto simp: sample_host_def sample_type_to_sql_string_def)
  note sig = input_signature_letters [OF len ok,
        of "\<lparr>drf_name = ''f'', drf_inputs = [''int32'', ''string''], drf_database = Some ''db''\<rparr>"]
  show ?thesis
    using sig [THEN conjunct1] sig [THEN conjunct2, THEN conjunct2, THEN conjunct2]
    by (simp add: sample_host_def sample_scoped_name_def ascii_letters_def enumerate_eq_zip upt_rec)
qed

text \<open>
  The comprehension stops at the first input whose type has no spelling, when that input
  comes before the letters run out.
\<close>

lemma input_params_type_error:
  "i + k < 52 \<Longrightarrow> k < length xs \<Longrightarrow> tts (xs ! k) = Inl e \<Longrightarrow>
   (\<And>j. j < k \<Longrightarrow> \<exists>t. tts (xs ! j) = Inr t) \<Longrightarrow> input_params tts i xs = Inl e"
proof (induction xs arbitrary: i k)
  case Nil
  then show ?case by simp
next
  case (Cons x xs)
  from Cons.prems(1) have i: "i < 52" by simp
  show ?case
  proof (cases k)
    case 0
    with Cons.prems(3) i show ?thesis by (simp add: letter_at_simps)
  next
    case (Suc k')
    with Cons.prems have "Suc i + k' < 52" and "k' < length xs" and "tts (xs ! k') = Inl e"
      by simp_all
    moreover have "\<And>j. j < k' \<Longrightarrow> \<exists>t. tts (xs ! j) = Inr t"
      using Cons.prems(4) [of "Suc j" for j] Suc by simp
    ultimately have rec: "input_params tts (Suc i) xs = Inl e"
      by (rule Cons.IH)
    obtain t where "tts x = Inr t"
      using Cons.prems(4) [of 0] Suc by auto
    with i rec show ?thesis by (simp add: letter_at_simps)
  qed
qed

text \<open>
  Claim C7 says that every list of more than 52 input types fails with the error for too
  many parameters. A list of 53 types whose first type has no spelling fails with the
  error of the type translator instead: the comprehension never reaches the 53rd letter.
\<close>

theorem input_signature_too_many_counterexample:
  "52 < length (''array'' # replicate 52 ''int32'')
   \<and> singlestore_input_signature (type_to_sql_string sample_host) (''array'' # replicate 52 ''int32'')
       = Inl (HostError ''UnsupportedTypeError'')
   \<and> singlestore_input_signature (type_to_sql_string sample_host) (''array'' # replicate 52 ''int32'')
       \<noteq> Inl IndexError"
  by (simp add: singlestore_input_signature_def letter_at_def ascii_letters_def sample_host_def
      sample_type_to_sql_string_def)

text \<open>
  Claim C7, as the code has it. For a list of more than 52 input types the signature is
  never produced and no other naming is tried: the comprehension raises. When the first 52
  types have a spelling, the exception is the \<^verbatim>\<open>IndexError\<close> of reading
  \<^verbatim>\<open>string.ascii_letters\<close> past its end; otherwise it is the error of the type translator
  for the first of them that has none. The signatures of DropFunction and CreateFunction
  fail with it.
\<close>

theorem input_signature_too_many:
  assumes "52 < length inputs"
  shows "(\<exists>e. singlestore_input_signature tts inputs = Inl e)
         \<and> ((\<forall>x \<in> set (take 52 inputs). \<exists>t. tts x = Inr t) \<longrightarrow>
              singlestore_input_signature tts inputs = Inl IndexError)
         \<and> (\<forall>k e. k < 52 \<and> tts (inputs ! k) = Inl e \<and> (\<forall>j<k. \<exists>t. tts (inputs ! j) = Inr t) \<longrightarrow>
              singlestore_input_signature tts inputs = Inl e)
         \<and> (drf_inputs d = inputs \<longrightarrow> (\<exists>e. DropFunction_singlestore_signature h d = Inl e))
         \<and> (fn_inputs (cf_func c) = inputs \<longrightarrow> (\<exists>e. CreateFunction_singlestore_signature h c = Inl e))"
proof -
  from assms have ne: "inputs \<noteq> []" and big: "52 < 0 + length inputs" by auto
  have fails: "\<exists>e. singlestore_input_signature f inputs = Inl e" for f
    using input_params_too_many [OF big ne, of f]
    by (auto simp: singlestore_input_signature_def)
  have idx: "(\<forall>x \<in> set (take 52 inputs). \<exists>t. tts x = Inr t) \<longrightarrow>
              singlestore_input_signature tts inputs = Inl IndexError"
    using input_params_index_error [OF big ne, of tts]
    by (auto simp: singlestore_input_signature_def)
  have ty: "singlestore_input_signature tts inputs = Inl e"
    if "k < 52" and "tts (inputs ! k) = Inl e" and "\<forall>j<k. \<exists>t. tts (inputs ! j) = Inr t" for k e
  proof -
    from that(1) assms have "0 + k < 52" and "k < length inputs" by simp_all
    then have "input_params tts 0 inputs = Inl e"
      using that(2,3) by (intro input_params_type_error [where k = k]) auto
    then show ?thesis by (simp add: singlestore_input_signature_def)
  qed
  have drop: "drf_inputs d = inputs \<longrightarrow> (\<exists>e. DropFunction_singlestore_signature h d = Inl e)"
    using fails [of "type_to_sql_string h"]
    by (auto simp: DropFunction_singlestore_signature_def)
  have create: "fn_inputs (cf_func c) = inputs \<longrightarrow> (\<exists>e. CreateFunction_singlestore_signature h c = Inl e)"
    using fails [of "type_to_sql_string h"]
    by (auto simp: CreateFunction_singlestore_signature_def)
  from fails [of tts] idx ty drop create show ?thesis by blast
qed

theorem input_signature_too_many_witness:
  "52 < length (replicate 53 ''int32'')
   \<and> singlestore_input_signature (type_to_sql_string sample_host) (replicate 53 ''int32'')
       = Inl IndexError
   \<and> 52 < length ([''int32'', ''array''] @ replicate 51 ''int32'')
   \<and> singlestore_input_signature (type_to_sql_string sample_host)
         ([''int32'', ''array''] @ replicate 51 ''int32'')
       = Inl (HostError ''UnsupportedTypeError'')"
proof -
  have big: "52 < length (replicate 53 ''int32'')" by simp
  have ok: "\<forall>x \<in> set (take 52 (replicate 53 ''int32'')). \<exists>t. type_to_sql_string sample_host x = Inr t"
    by (simp add: sample_host_def sample_type_to_sql_string_def)
  have first: "singlestore_input_signature (type_to_sql_string sample_host) (replicate 53 ''int32'')
       = Inl IndexError"
    using input_signature_too_many [OF big, of "type_to_sql_string sample_host"] ok by blast
  let ?xs = "[''int32'', ''array''] @ replicate 51 ''int32''"
  have big': "52 < length ?xs" by simp
  have bad: "(1::nat) < 52 \<and> type_to_sql_string sample_host (?xs ! 1) = Inl (HostError ''UnsupportedTypeError'')
       \<and> (\<forall>j<1. \<exists>t. type_to_sql_string sample_host (?xs ! j) = Inr t)"
    by (simp add: sample_host_def sample_type_to_sql_string_def)
  have second: "singlestore_input_signature (type_to_sql_string sample_host) ?xs
       = Inl (HostError ''UnsupportedTypeError'')"
    using input_signature_too_many [OF big', of "type_to_sql_string sample_host"] bad by blast
  from big first big' second show ?thesis by blast
qed

section \<open>Properties of the storage formats\<close>

text \<open>
  Claim C3. \<^verbatim>\<open>DelimitedFormat.to_ddl\<close> yields exactly these clauses, in this order:
  \<^verbatim>\<open>ROW FORMAT DELIMITED\<close>; \<^verbatim>\<open>FIELDS TERMINATED BY '<delimiter>'\<close> only when a delimiter is
  set; \<^verbatim>\<open>ESCAPED BY '<escapechar>'\<close> only when an escape character is set;
  \<^verbatim>\<open>LINES TERMINATED BY '<lineterminator>'\<close> only when a line terminator is set;
  \<^verbatim>\<open>LOCATION '<path>'\<close>; and, only when \<^verbatim>\<open>na_rep\<close> is set, the properties clause of the
  one-entry map from \<^verbatim>\<open>serialization.null.format\<close> to \<^verbatim>\<open>na_rep\<close>.
\<close>

theorem DelimitedFormat_to_ddl_clauses:
  "DelimitedFormat_to_ddl h self =
     [''ROW FORMAT DELIMITED'']
     @ (case df_delimiter self of
          None \<Rightarrow> [] | Some d \<Rightarrow> [''FIELDS TERMINATED BY '' @ [squote] @ d @ [squote]])
     @ (case df_escapechar self of
          None \<Rightarrow> [] | Some e \<Rightarrow> [''ESCAPED BY '' @ [squote] @ e @ [squote]])
     @ (case df_lineterminator self of
          None \<Rightarrow> [] | Some l \<Rightarrow> [''LINES TERMINATED BY '' @ [squote] @ l @ [squote]])
     @ [''LOCATION '' @ [squote] @ df_path self @ [squote]]
     @ (case df_na_rep self of
          None \<Rightarrow> []
        | Some n \<Rightarrow> [format_tblproperties h [(''serialization.null.format'', n)]])"
  by (simp add: DelimitedFormat_to_ddl_def single_quoted_def split: option.splits)

text \<open>The delimited file of the specification's first golden case.\<close>

lemma DelimitedFormat_to_ddl_example:
  "DelimitedFormat_to_ddl sample_host
     \<lparr>df_path = ''/data/t.csv'', df_delimiter = Some '','', df_escapechar = None,
      df_na_rep = Some ''NULL'', df_lineterminator = None\<rparr>
   = [''ROW FORMAT DELIMITED'',
      ''FIELDS TERMINATED BY '' @ [squote] @ '','' @ [squote],
      ''LOCATION '' @ [squote] @ ''/data/t.csv'' @ [squote],
      ''('' @ [squote] @ ''serialization.null.format'' @ [squote] @ ''='' @ [squote] @ ''NULL'' @ [squote] @ '')'']"
  by (simp add: DelimitedFormat_to_ddl_def single_quoted_def sample_host_def
      sample_format_tblproperties_def)

section \<open>Properties of AvroFormat\<close>

text \<open>What \<^verbatim>\<open>rstrip\<close> returns is empty or ends in a character that is not white space.\<close>

lemma rstrip_no_trailing_space: "rstrip s = [] \<or> \<not> is_space (last (rstrip s))"
proof (cases "dropWhile is_space (rev s)")
  case Nil
  then show ?thesis by (simp add: rstrip_def)
next
  case (Cons c cs)
  then have "\<not> is_space c"
    using hd_dropWhile [of is_space "rev s"] by force
  with Cons show ?thesis by (simp add: rstrip_def)
qed

text \<open>
  Sorting by key does not depend on the order of the items when the keys are distinct: the
  sorted list of a dict is the same for every insertion order.
\<close>

lemma filter_key_distinct:
  "distinct (map f xs) \<Longrightarrow> k \<in> set xs \<Longrightarrow> filter (\<lambda>x. f k = f x) xs = [k]"
proof (induction xs)
  case Nil
  then show ?case by simp
next
  case (Cons x xs)
  show ?case
  proof (cases "k = x")
    case True
    with Cons.prems(1) have "filter (\<lambda>y. f x = f y) xs = []"
      by (auto simp: filter_empty_conv)
    with True show ?thesis by simp
  next
    case False
    with Cons.prems have "k \<in> set xs" by simp
    moreover from this Cons.prems(1) have "f k \<noteq> f x" by (auto simp: image_iff)
    ultimately have "k \<in> set xs" and "f k \<noteq> f x" by simp_all
    with Cons show ?thesis by simp
  qed
qed

lemma sort_key_permutation:
  assumes "distinct (map f xs)" and "mset xs = mset ys"
  shows "sort_key f xs = sort_key f ys"
proof (rule properties_for_sort_key)
  show "mset (sort_key f ys) = mset xs" using assms(2) by simp
  show "sorted (map f (sort_key f ys))" by simp
  fix k assume k: "k \<in> set (sort_key f ys)"
  have dys: "distinct (map f (sort_key f ys))"
    using assms by (metis distinct_map mset_eq_setD mset_sort mset_eq_imp_distinct_iff mset_map distinct_sort)
  have "k \<in> set xs" using k assms(2) by (metis mset_eq_setD set_sort)
  then show "filter (\<lambda>x. f k = f x) (sort_key f ys) = filter (\<lambda>x. f k = f x) xs"
    using filter_key_distinct [OF dys k] filter_key_distinct [OF assms(1)] by simp
qed

lemma json_dumps_key_order:
  "distinct (map fst kvs) \<Longrightarrow> mset kvs = mset kvs' \<Longrightarrow>
   iterencode level (JDict kvs) = iterencode level (JDict kvs')"
  using sort_key_permutation [of fst kvs kvs'] mset_eq_setD [of kvs kvs']
  by (cases "kvs = []"; cases "kvs' = []") auto

text \<open>
  What \<^verbatim>\<open>json.dumps\<close> writes is tidy: its only line boundaries are the line feeds of the
  indentation, and each of them follows a bracket, a comma or the end of a value. On tidy
  text, splitting into lines, stripping each line and joining the lines again changes
  nothing.
\<close>

lemma space_facts:
  "is_space CHR '' ''" "\<not> is_linebreak CHR '' ''" "is_space newline" "is_linebreak newline"
  by (simp_all add: is_space_def is_linebreak_def)

lemma tidy_from_mono: "tidy_from False s \<Longrightarrow> tidy_from p s"
  by (cases s) auto

lemma tidy_from_append:
  "tidy_from p (a @ b) = (tidy_from p a \<and> tidy_from (ends_tidy p a) b)"
  by (induction a arbitrary: p) (auto simp: ends_tidy_def space_facts)

lemma tidy_append: "tidy a \<Longrightarrow> tidy b \<Longrightarrow> tidy (a @ b)"
  by (auto simp: tidy_def tidy_from_append ends_tidy_def tidy_from_mono)

lemma tidy_from_spaces: "tidy_from p (replicate n CHR '' '')"
  by (induction n arbitrary: p) (auto simp: space_facts)

lemma ends_tidy_spaces: "ends_tidy False (replicate n CHR '' '') = False"
  by (cases n) (auto simp: ends_tidy_def space_facts)

lemma tidy_newline_indent:
  assumes "tidy a" and "tidy b"
  shows "tidy (a @ newline_indent k @ b)"
proof -
  have "tidy_from True (newline_indent k @ b)"
    using assms(2)
    by (simp add: newline_indent_def tidy_from_append tidy_from_spaces ends_tidy_spaces tidy_def)
  with assms show ?thesis
    by (simp add: tidy_def tidy_from_append ends_tidy_def)
qed

lemma tidy_plain:
  assumes "s \<noteq> []" and "\<forall>c \<in> set s. \<not> is_space c \<and> \<not> is_linebreak c"
  shows "tidy s"
proof -
  have "\<forall>c \<in> set t. \<not> is_space c \<and> \<not> is_linebreak c \<Longrightarrow> tidy_from p t" for p t
    by (induction t arbitrary: p) (auto simp: space_facts)
  with assms show ?thesis
    by (simp add: tidy_def)
qed


lemma tidy_from_no_break: "\<forall>c \<in> set s. \<not> is_linebreak c \<Longrightarrow> tidy_from p s"
  by (induction s arbitrary: p) (auto simp: space_facts)

lemma tidy_no_break:
  "s \<noteq> [] \<Longrightarrow> \<forall>c \<in> set s. \<not> is_linebreak c \<Longrightarrow> \<not> is_space (last s) \<Longrightarrow> tidy s"
  by (simp add: tidy_def tidy_from_no_break)

lemma tidy_sandwich:
  assumes "tidy a" and "tidy b" and "\<forall>c \<in> set m. \<not> is_linebreak c"
  shows "tidy (a @ m @ b)"
  using assms
  by (simp add: tidy_def tidy_from_append tidy_from_no_break tidy_from_mono)

lemma hex_digit_no_break: "\<not> is_linebreak (hex_digit n)"
proof -
  have "hex_digit n \<in> set ''0123456789abcdef''"
    unfolding hex_digit_def by (rule nth_mem) simp
  then show ?thesis
    by (auto simp: is_linebreak_def)
qed

lemma escape_chars_no_break:
  "\<not> is_linebreak (CHR 0x5C)" "\<not> is_linebreak dquote" "\<not> is_linebreak CHR ''b''"
  "\<not> is_linebreak CHR ''f''" "\<not> is_linebreak CHR ''n''" "\<not> is_linebreak CHR ''r''"
  "\<not> is_linebreak CHR ''t''" "\<not> is_linebreak CHR ''u''" "\<not> is_linebreak CHR ''0''"
  by (simp_all add: is_linebreak_def)

lemma printable_no_break:
  "0x20 \<le> (of_char c :: nat) \<Longrightarrow> (of_char c :: nat) \<le> 0x7E \<Longrightarrow> \<not> is_linebreak c"
  by (auto simp: is_linebreak_def)

lemma json_escape_no_break: "\<forall>x \<in> set (json_escape c). \<not> is_linebreak x"
  by (simp add: json_escape_def hex2_def hex_digit_no_break escape_chars_no_break
      printable_no_break)

lemma tidy_encode_basestring_ascii: "tidy (encode_basestring_ascii s)"
proof (rule tidy_no_break)
  show "encode_basestring_ascii s \<noteq> []"
    by (simp add: encode_basestring_ascii_def)
  show "\<forall>c \<in> set (encode_basestring_ascii s). \<not> is_linebreak c"
    using json_escape_no_break by (auto simp: encode_basestring_ascii_def is_linebreak_def)
  show "\<not> is_space (last (encode_basestring_ascii s))"
    by (simp add: encode_basestring_ascii_def is_space_def)
qed


lemma nat_repr_digits: "nat_repr n \<noteq> [] \<and> set (nat_repr n) \<subseteq> set ''0123456789''"
proof (induction n rule: nat_repr.induct)
  case (1 n)
  show ?case
  proof (cases "n < 10")
    case True
    then have "''0123456789'' ! n \<in> set ''0123456789''"
      by (intro nth_mem) simp
    with True show ?thesis
      by (simp add: nat_repr.simps [of n])
  next
    case False
    have "''0123456789'' ! (n mod 10) \<in> set ''0123456789''"
      by (intro nth_mem) simp
    with False 1 show ?thesis
      by (simp add: nat_repr.simps [of n])
  qed
qed

lemma tidy_int_repr: "tidy (int_repr i)"
proof (rule tidy_plain)
  show "int_repr i \<noteq> []"
    using nat_repr_digits by (simp add: int_repr_def)
  have "\<not> is_space c \<and> \<not> is_linebreak c" if "c \<in> set ''0123456789''" for c
    using that by (auto simp: is_space_def is_linebreak_def)
  then show "\<forall>c \<in> set (int_repr i). \<not> is_space c \<and> \<not> is_linebreak c"
    using nat_repr_digits by (auto simp: int_repr_def is_space_def is_linebreak_def)
qed

lemma tidy_literals:
  "tidy ''null''" "tidy ''true''" "tidy ''false''" "tidy ''[]''" "tidy ''{}''"
  "tidy ''[''" "tidy '']''" "tidy ''{''" "tidy ''}''" "tidy '',''"
  by (simp_all add: tidy_def is_space_def is_linebreak_def)


lemma tidy_str_join:
  "items \<noteq> [] \<Longrightarrow> \<forall>x \<in> set items. tidy x \<Longrightarrow> tidy (str_join ('','' @ newline_indent k) items)"
proof (induction "'','' @ newline_indent k" items rule: str_join.induct)
  case 1
  then show ?case by simp
next
  case (2 x)
  then show ?case by simp
next
  case (3 x y ys)
  then have rest: "tidy (str_join ('','' @ newline_indent k) (y # ys))" by simp
  from 3 have "tidy (x @ '','')" by (simp add: tidy_append tidy_literals)
  from tidy_newline_indent [OF this rest] show ?case by simp
qed


lemma tidy_iterencode: "tidy (iterencode level j)"
proof (induction level j rule: iterencode.induct)
  case (5 level xs)
  show ?case
  proof (cases "xs = []")
    case True
    then show ?thesis by (simp add: tidy_literals)
  next
    case False
    with 5 have "tidy (str_join ('','' @ newline_indent (Suc level)) (map (iterencode (Suc level)) xs))"
      by (intro tidy_str_join) auto
    from tidy_newline_indent [OF this tidy_literals(7)]
    have "tidy (str_join ('','' @ newline_indent (Suc level)) (map (iterencode (Suc level)) xs)
                @ newline_indent level @ '']'')" .
    from tidy_newline_indent [OF tidy_literals(6) this] False show ?thesis
      by simp
  qed
next
  case (6 level kvs)
  show ?case
  proof (cases "kvs = []")
    case True
    then show ?thesis by (simp add: tidy_literals)
  next
    case False
    have item: "tidy (encode_basestring_ascii (fst kv) @ '': '' @ iterencode (Suc level) (snd kv))"
      if "kv \<in> set (sort_key fst kvs)" for kv
      using 6 [OF False that] tidy_encode_basestring_ascii
      by (intro tidy_sandwich) (auto simp: is_linebreak_def)
    have "sort_key fst kvs \<noteq> []"
      using False by (metis length_0_conv length_sort)
    with item have "tidy (str_join ('','' @ newline_indent (Suc level))
               (map (\<lambda>kv. encode_basestring_ascii (fst kv) @ '': '' @ iterencode (Suc level) (snd kv))
                  (sort_key fst kvs)))"
      by (intro tidy_str_join) auto
    from tidy_newline_indent [OF this tidy_literals(9)]
    have "tidy (str_join ('','' @ newline_indent (Suc level))
               (map (\<lambda>kv. encode_basestring_ascii (fst kv) @ '': '' @ iterencode (Suc level) (snd kv))
                  (sort_key fst kvs))
                @ newline_indent level @ ''}'')" .
    from tidy_newline_indent [OF tidy_literals(8) this] False show ?thesis
      by simp
  qed
qed (simp_all add: tidy_literals tidy_int_repr tidy_encode_basestring_ascii)


lemma rstrip_tidy_end: "ends_tidy True s \<Longrightarrow> rstrip s = s"
proof (cases s rule: rev_cases)
  case Nil
  then show ?thesis by (simp add: rstrip_def)
next
  case (snoc xs x)
  assume "ends_tidy True s"
  with snoc show ?thesis by (simp add: rstrip_def ends_tidy_def)
qed

lemma splitlines_from_nonempty: "s \<noteq> [] \<Longrightarrow> splitlines_from cur s \<noteq> []"
  by (induction cur s rule: splitlines_from.induct) auto

lemma str_join_Cons: "ys \<noteq> [] \<Longrightarrow> str_join sep (x # ys) = x @ sep @ str_join sep ys"
  by (cases ys) simp_all

lemma splitlines_tidy:
  "tidy_from (ends_tidy False cur) s \<Longrightarrow> ends_tidy (ends_tidy False cur) s \<Longrightarrow>
   str_join [newline] (map rstrip (splitlines_from cur s)) = cur @ s"
proof (induction cur s rule: splitlines_from.induct)
  case (1 cur)
  then have "ends_tidy True cur" by (simp add: ends_tidy_def split: if_splits)
  then show ?case using 1 by (simp add: rstrip_tidy_end ends_tidy_def split: if_splits)
next
  case (2 cur c)
  from 2 have nospace: "\<not> is_space c" by (simp add: ends_tidy_def)
  then have "c \<noteq> newline" using space_facts(3) by auto
  with 2 have "\<not> is_linebreak c" by simp
  moreover have "rstrip (cur @ [c]) = cur @ [c]"
    using nospace by (intro rstrip_tidy_end) (simp add: ends_tidy_def)
  ultimately show ?case by simp
next
  case (3 cur c d cs)
  show ?case
  proof (cases "c = newline")
    case True
    with "3.prems"(1) have p: "ends_tidy False cur" and rest: "tidy_from False (d # cs)"
      by (simp_all split: if_splits)
    from p have "ends_tidy True cur" by (simp add: ends_tidy_def split: if_splits)
    then have cur: "rstrip cur = cur" by (rule rstrip_tidy_end)
    have e: "ends_tidy (ends_tidy False []) (d # cs)"
      using "3.prems"(2) by (simp add: ends_tidy_def)
    have r: "tidy_from (ends_tidy False []) (d # cs)"
      using rest by (simp add: ends_tidy_def)
    have notcr: "\<not> (c = CHR 0x0D \<and> d = CHR 0x0A)" using True by simp
    have ih: "str_join [newline] (map rstrip (splitlines_from [] (d # cs))) = [] @ d # cs"
      using "3.IH"(2) [OF notcr _ r e] True by (simp add: space_facts)
    have ne: "map rstrip (splitlines_from [] (d # cs)) \<noteq> []"
      using splitlines_from_nonempty [of "d # cs" "[]"] by simp
    show ?thesis
      using True ih cur str_join_Cons [OF ne, of "[newline]" cur]
      by (simp add: space_facts)
  next
    case False
    with "3.prems"(1) have nb: "\<not> is_linebreak c"
      and rest: "tidy_from (\<not> is_space c) (d # cs)"
      by simp_all
    have notcr: "\<not> (c = CHR 0x0D \<and> d = CHR 0x0A)"
      using nb by (auto simp: is_linebreak_def)
    have r: "tidy_from (ends_tidy False (cur @ [c])) (d # cs)"
      using rest by (simp add: ends_tidy_def)
    have e: "ends_tidy (ends_tidy False (cur @ [c])) (d # cs)"
      using "3.prems"(2) by (simp add: ends_tidy_def)
    have "str_join [newline] (map rstrip (splitlines_from (cur @ [c]) (d # cs))) = (cur @ [c]) @ d # cs"
      using "3.IH"(3) [OF notcr nb r e] .
    moreover have "c \<noteq> CHR 0x0D"
      using nb by (auto simp: is_linebreak_def)
    ultimately show ?thesis using nb by simp
  qed
qed

lemma strip_lines_tidy: "tidy s \<Longrightarrow> str_join [newline] (map rstrip (splitlines s)) = s"
  using splitlines_tidy [of "[]" s]
  by (simp add: tidy_def splitlines_def ends_tidy_def)

lemma strip_lines_json_dumps:
  "str_join [newline] (map rstrip (splitlines (json_dumps v))) = json_dumps v"
  by (simp add: strip_lines_tidy tidy_iterencode json_dumps_def)

text \<open>
  Claim C4. \<^verbatim>\<open>AvroFormat.to_ddl\<close> yields \<^verbatim>\<open>STORED AS AVRO\<close>, then \<^verbatim>\<open>LOCATION '<path>'\<close>,
  then the properties clause of a map whose single key is \<^verbatim>\<open>avro.schema.literal\<close>. Its
  value is the schema written by \<^verbatim>\<open>json.dumps\<close> with indentation 2 and sorted keys, each
  line stripped of trailing white space: no line of the value ends in white space, and
  since \<^verbatim>\<open>json.dumps\<close> leaves none, the value is the text of \<^verbatim>\<open>json.dumps\<close> itself; the
  items of a dict are written in the order of their keys, each on a line of its own
  indented by two spaces a level; and the insertion order of the schema's keys does not
  change the clauses.
\<close>

theorem AvroFormat_to_ddl_clauses:
  "AvroFormat_to_ddl h self
     = [''STORED AS AVRO'',
        ''LOCATION '' @ [squote] @ av_path self @ [squote],
        format_tblproperties h
          [(''avro.schema.literal'',
            str_join [newline] (map rstrip (splitlines (json_dumps (av_avro_schema self)))))]]
   \<and> (\<forall>l \<in> set (map rstrip (splitlines (json_dumps (av_avro_schema self)))).
         l = [] \<or> \<not> is_space (last l))
   \<and> str_join [newline] (map rstrip (splitlines (json_dumps (av_avro_schema self))))
       = json_dumps (av_avro_schema self)
   \<and> (\<forall>kvs. kvs \<noteq> [] \<longrightarrow>
         (\<exists>items. mset items = mset kvs \<and> sorted (map fst items)
            \<and> json_dumps (JDict kvs)
                = ''{'' @ [newline] @ ''  ''
                  @ str_join ('','' @ [newline] @ ''  '')
                      (map (\<lambda>kv. encode_basestring_ascii (fst kv) @ '': '' @ iterencode 1 (snd kv))
                         items)
                  @ [newline] @ ''}''))
   \<and> (\<forall>kvs kvs'. av_avro_schema self = JDict kvs \<and> distinct (map fst kvs) \<and> mset kvs' = mset kvs
         \<longrightarrow> AvroFormat_to_ddl h (self\<lparr>av_avro_schema := JDict kvs'\<rparr>) = AvroFormat_to_ddl h self)"
proof -
  have clauses: "AvroFormat_to_ddl h self
     = [''STORED AS AVRO'',
        ''LOCATION '' @ [squote] @ av_path self @ [squote],
        format_tblproperties h
          [(''avro.schema.literal'',
            str_join [newline] (map rstrip (splitlines (json_dumps (av_avro_schema self)))))]]"
    by (simp add: AvroFormat_to_ddl_def single_quoted_def)
  have stripped: "\<forall>l \<in> set (map rstrip (splitlines (json_dumps (av_avro_schema self)))).
         l = [] \<or> \<not> is_space (last l)"
    using rstrip_no_trailing_space by auto
  have layout: "\<exists>items. mset items = mset kvs \<and> sorted (map fst items)
            \<and> json_dumps (JDict kvs)
                = ''{'' @ [newline] @ ''  ''
                  @ str_join ('','' @ [newline] @ ''  '')
                      (map (\<lambda>kv. encode_basestring_ascii (fst kv) @ '': '' @ iterencode 1 (snd kv))
                         items)
                  @ [newline] @ ''}''" if "kvs \<noteq> []" for kvs
  proof (intro exI conjI)
    show "mset (sort_key fst kvs) = mset kvs" by simp
    show "sorted (map fst (sort_key fst kvs))" by simp
    show "json_dumps (JDict kvs)
                = ''{'' @ [newline] @ ''  ''
                  @ str_join ('','' @ [newline] @ ''  '')
                      (map (\<lambda>kv. encode_basestring_ascii (fst kv) @ '': '' @ iterencode 1 (snd kv))
                         (sort_key fst kvs))
                  @ [newline] @ ''}''"
      using that by (simp add: json_dumps_def newline_indent_def numeral_2_eq_2)
  qed
  have order: "AvroFormat_to_ddl h (self\<lparr>av_avro_schema := JDict kvs'\<rparr>) = AvroFormat_to_ddl h self"
    if "av_avro_schema self = JDict kvs" and "distinct (map fst kvs)" and "mset kvs' = mset kvs"
    for kvs kvs'
    using that json_dumps_key_order [of kvs kvs' 0]
    by (simp add: AvroFormat_to_ddl_def json_dumps_def)
  have same: "str_join [newline] (map rstrip (splitlines (json_dumps (av_avro_schema self))))
       = json_dumps (av_avro_schema self)"
    by (rule strip_lines_json_dumps)
  from clauses stripped same layout order show ?thesis by blast
qed

text \<open>A record schema with one field, its keys inserted out of order.\<close>

lemma avro_example_dump:
  "str_join [newline] (map rstrip (splitlines (json_dumps
     (JDict [(''type'', JStr ''record''), (''name'', JStr ''r''),
             (''fields'', JList [JDict [(''type'', JStr ''int''), (''name'', JStr ''a'')]])]))))
   = ''{'' @ [newline] @ ''  '' @ [dquote] @ ''fields'' @ [dquote] @ '': ['' @ [newline] @ ''    {'' @ [newline] @ ''      '' @ [dquote] @ ''name'' @ [dquote] @ '': '' @ [dquote] @ ''a'' @ [dquote] @ '','' @ [newline] @ ''      '' @ [dquote] @ ''type'' @ [dquote] @ '': '' @ [dquote] @ ''int'' @ [dquote] @ [newline] @ ''    }'' @ [newline] @ ''  ],'' @ [newline] @ ''  '' @ [dquote] @ ''name'' @ [dquote] @ '': '' @ [dquote] @ ''r'' @ [dquote] @ '','' @ [newline] @ ''  '' @ [dquote] @ ''type'' @ [dquote] @ '': '' @ [dquote] @ ''record'' @ [dquote] @ [newline] @ ''}''"
  by code_simp

theorem AvroFormat_to_ddl_clauses_witness:
  "AvroFormat_to_ddl sample_host
     \<lparr>av_path = ''/data/a.avro'',
      av_avro_schema =
        JDict [(''type'', JStr ''record''), (''name'', JStr ''r''),
               (''fields'', JList [JDict [(''type'', JStr ''int''), (''name'', JStr ''a'')]])]\<rparr>
   = [''STORED AS AVRO'',
      ''LOCATION '' @ [squote] @ ''/data/a.avro'' @ [squote],
      ''('' @ [squote] @ ''avro.schema.literal'' @ [squote] @ ''='' @ [squote] @ ''{'' @ [newline] @ ''  '' @ [dquote] @ ''fields'' @ [dquote] @ '': ['' @ [newline] @ ''    {'' @ [newline] @ ''      '' @ [dquote] @ ''name'' @ [dquote] @ '': '' @ [dquote] @ ''a'' @ [dquote] @ '','' @ [newline] @ ''      '' @ [dquote] @ ''type'' @ [dquote] @ '': '' @ [dquote] @ ''int'' @ [dquote] @ [newline] @ ''    }'' @ [newline] @ ''  ],'' @ [newline] @ ''  '' @ [dquote] @ ''name'' @ [dquote] @ '': '' @ [dquote] @ ''r'' @ [dquote] @ '','' @ [newline] @ ''  '' @ [dquote] @ ''type'' @ [dquote] @ '': '' @ [dquote] @ ''record'' @ [dquote] @ [newline] @ ''}'' @ [squote] @ '')'']
   \<and> AvroFormat_to_ddl sample_host
       \<lparr>av_path = ''/data/a.avro'',
        av_avro_schema = JDict [(''name'', JStr ''r''), (''type'', JStr ''record'')]\<rparr>
     = AvroFormat_to_ddl sample_host
       \<lparr>av_path = ''/data/a.avro'',
        av_avro_schema = JDict [(''type'', JStr ''record''), (''name'', JStr ''r'')]\<rparr>"
proof -
  let ?self = "\<lparr>av_path = ''/data/a.avro'',
      av_avro_schema =
        JDict [(''type'', JStr ''record''), (''name'', JStr ''r''),
               (''fields'', JList [JDict [(''type'', JStr ''int''), (''name'', JStr ''a'')]])]\<rparr>"
  let ?small = "\<lparr>av_path = ''/data/a.avro'',
        av_avro_schema = JDict [(''type'', JStr ''record''), (''name'', JStr ''r'')]\<rparr>"
  have first: "AvroFormat_to_ddl sample_host ?self
      = [''STORED AS AVRO'',
         ''LOCATION '' @ [squote] @ av_path ?self @ [squote],
         format_tblproperties sample_host
           [(''avro.schema.literal'',
             str_join [newline] (map rstrip (splitlines (json_dumps (av_avro_schema ?self)))))]]"
    using AvroFormat_to_ddl_clauses [of sample_host ?self] by blast
  have "av_avro_schema ?small = JDict [(''type'', JStr ''record''), (''name'', JStr ''r'')]
        \<and> distinct (map fst [(''type'', JStr ''record''), (''name'', JStr ''r'')])
        \<and> mset [(''name'', JStr ''r''), (''type'', JStr ''record'')]
            = mset [(''type'', JStr ''record''), (''name'', JStr ''r'')]"
    by simp
  then have second: "AvroFormat_to_ddl sample_host
        (?small\<lparr>av_avro_schema := JDict [(''name'', JStr ''r''), (''type'', JStr ''record'')]\<rparr>)
      = AvroFormat_to_ddl sample_host ?small"
    using AvroFormat_to_ddl_clauses [of sample_host ?small] by blast
  from first second show ?thesis
    by (simp add: avro_example_dump sample_host_def sample_format_tblproperties_def single_quoted_def)
qed

section \<open>Properties of CreateTableParquet\<close>

text \<open>
  Claim C1 says that rendering fails whenever the number of sources set among the example
  file, the example table and the schema is not exactly one. With the example file and the
  example table both set, \<^verbatim>\<open>_pieces\<close> does not raise: the example file is used.
\<close>

theorem CreateTableParquet_both_sources_counterexample:
  "CreateTableParquet_pieces sample_host (Some ''STORED AS PARQUET'') (Some ''LOCATION /data/t'')
     \<lparr>ctp_table_name = ''t'', ctp_path = ''/data/t'',
      ctp_example_file = Some ''/data/ex.parquet'', ctp_example_table = Some ''other'',
      ctp_schema = None, ctp_external = True\<rparr>
   = Inr [Some (''LIKE PARQUET '' @ [squote] @ ''/data/ex.parquet'' @ [squote]),
          Some ''STORED AS PARQUET'', Some ''LOCATION /data/t'']"
  by (simp add: CreateTableParquet_pieces_def single_quoted_def)

text \<open>
  Claim C1, as the code has it. With none of the example file, the example table and the
  schema set, \<^verbatim>\<open>_pieces\<close> raises (\<^verbatim>\<open>NotImplementedError\<close>). With more than one set it does
  not raise on that account: the sources are tried in the order example file, example
  table, schema, and the first that is set gives the source clause, followed by the
  storage and location pieces. An example file or an example table always renders; the
  schema is rendered by the host's \<^verbatim>\<open>format_schema\<close>, whose failure is passed on.
\<close>

theorem CreateTableParquet_pieces_sources:
  "(ctp_example_file self = None \<and> ctp_example_table self = None \<and> ctp_schema self = None
        \<longrightarrow> CreateTableParquet_pieces h storage location self = Inl NotImplementedError)
   \<and> (\<forall>f. ctp_example_file self = Some f
        \<longrightarrow> CreateTableParquet_pieces h storage location self
            = Inr [Some (''LIKE PARQUET '' @ [squote] @ f @ [squote]), storage, location])
   \<and> (\<forall>t. ctp_example_file self = None \<and> ctp_example_table self = Some t
        \<longrightarrow> CreateTableParquet_pieces h storage location self
            = Inr [Some (''LIKE '' @ t), storage, location])
   \<and> (\<forall>sc. ctp_example_file self = None \<and> ctp_example_table self = None \<and> ctp_schema self = Some sc
        \<longrightarrow> CreateTableParquet_pieces h storage location self
            = (case format_schema h sc of
                 Inl e \<Rightarrow> Inl e
               | Inr columns \<Rightarrow> Inr [Some columns, storage, location]))"
  by (simp add: CreateTableParquet_pieces_def single_quoted_def)

theorem CreateTableParquet_pieces_sources_witness:
  "CreateTableParquet_pieces sample_host (Some ''STORED AS PARQUET'') None
     \<lparr>ctp_table_name = ''t'', ctp_path = '''',
      ctp_example_file = Some ''/data/ex.parquet'', ctp_example_table = Some ''other'',
      ctp_schema = Some [(''a'', ''int32'')], ctp_external = True\<rparr>
   = Inr [Some (''LIKE PARQUET '' @ [squote] @ ''/data/ex.parquet'' @ [squote]),
          Some ''STORED AS PARQUET'', None]
   \<and> CreateTableParquet_pieces sample_host (Some ''STORED AS PARQUET'') (Some ''LOCATION /data/t'')
     \<lparr>ctp_table_name = ''t'', ctp_path = ''/data/t'',
      ctp_example_file = None, ctp_example_table = Some ''other'',
      ctp_schema = Some [(''a'', ''int32'')], ctp_external = True\<rparr>
   = Inr [Some ''LIKE other'', Some ''STORED AS PARQUET'', Some ''LOCATION /data/t'']
   \<and> CreateTableParquet_pieces sample_host (Some ''STORED AS PARQUET'') (Some ''LOCATION /data/t'')
     \<lparr>ctp_table_name = ''t'', ctp_path = ''/data/t'',
      ctp_example_file = None, ctp_example_table = None,
      ctp_schema = Some [(''a'', ''int32''), (''b'', ''string'')], ctp_external = True\<rparr>
   = Inr [Some ''(a INT, b VARCHAR)'', Some ''STORED AS PARQUET'', Some ''LOCATION /data/t'']
   \<and> CreateTableParquet_pieces sample_host (Some ''STORED AS PARQUET'') (Some ''LOCATION /data/t'')
     \<lparr>ctp_table_name = ''t'', ctp_path = ''/data/t'',
      ctp_example_file = None, ctp_example_table = None,
      ctp_schema = Some [(''a'', ''array'')], ctp_external = True\<rparr>
   = Inl (HostError ''UnsupportedTypeError'')
   \<and> CreateTableParquet_pieces sample_host (Some ''STORED AS PARQUET'') (Some ''LOCATION /data/t'')
     \<lparr>ctp_table_name = ''t'', ctp_path = ''/data/t'',
      ctp_example_file = None, ctp_example_table = None,
      ctp_schema = None, ctp_external = True\<rparr>
   = Inl NotImplementedError"
proof -
  let ?st = "Some ''STORED AS PARQUET''"
  let ?loc = "Some ''LOCATION /data/t''"
  let ?both = "\<lparr>ctp_table_name = ''t'', ctp_path = '''',
      ctp_example_file = Some ''/data/ex.parquet'', ctp_example_table = Some ''other'',
      ctp_schema = Some [(''a'', ''int32'')], ctp_external = True\<rparr>"
  let ?table = "\<lparr>ctp_table_name = ''t'', ctp_path = ''/data/t'',
      ctp_example_file = None, ctp_example_table = Some ''other'',
      ctp_schema = Some [(''a'', ''int32'')], ctp_external = True\<rparr>"
  let ?schema = "\<lparr>ctp_table_name = ''t'', ctp_path = ''/data/t'',
      ctp_example_file = None, ctp_example_table = None,
      ctp_schema = Some [(''a'', ''int32''), (''b'', ''string'')], ctp_external = True\<rparr>"
  let ?bad = "\<lparr>ctp_table_name = ''t'', ctp_path = ''/data/t'',
      ctp_example_file = None, ctp_example_table = None,
      ctp_schema = Some [(''a'', ''array'')], ctp_external = True\<rparr>"
  let ?none = "\<lparr>ctp_table_name = ''t'', ctp_path = ''/data/t'',
      ctp_example_file = None, ctp_example_table = None,
      ctp_schema = None :: (string \<times> string) list option, ctp_external = True\<rparr>"
  have good: "format_schema sample_host [(''a'', ''int32''), (''b'', ''string'')] = Inr ''(a INT, b VARCHAR)''"
    by (simp add: sample_host_def sample_format_schema_def sample_type_to_sql_string_def)
  have bad: "format_schema sample_host [(''a'', ''array'')] = Inl (HostError ''UnsupportedTypeError'')"
    by (simp add: sample_host_def sample_format_schema_def sample_type_to_sql_string_def)
  show ?thesis
    using CreateTableParquet_pieces_sources [of ?both sample_host ?st None]
      CreateTableParquet_pieces_sources [of ?table sample_host ?st ?loc]
      CreateTableParquet_pieces_sources [of ?schema sample_host ?st ?loc]
      CreateTableParquet_pieces_sources [of ?bad sample_host ?st ?loc]
      CreateTableParquet_pieces_sources [of ?none sample_host ?st ?loc]
    by (simp add: good bad)
qed

section \<open>Properties of the function statements\<close>

text \<open>The loop over the hooks appends, in order, the clause of each hook that has a value.\<close>

lemma foldl_append_hook:
  "foldl append_hook tokens fvs = tokens @ concat (map (\<lambda>fv. hook_clause (fst fv) (snd fv)) fvs)"
  by (induction fvs arbitrary: tokens)
     (simp_all add: append_hook_def hook_clause_def split: option.splits)

text \<open>
  Claim C5. When the signature renders and the library reference is text,
  \<^verbatim>\<open>CreateUDA.compile\<close> always emits \<^verbatim>\<open>AS INFILE '<path>'\<close> and then, for exactly those of
  \<^verbatim>\<open>init_fn\<close>, \<^verbatim>\<open>update_fn\<close>, \<^verbatim>\<open>merge_fn\<close>, \<^verbatim>\<open>serialize_fn\<close>, \<^verbatim>\<open>finalize_fn\<close> that have a
  value, a clause \<^verbatim>\<open>hookname="expression"\<close>, in that order; a hook without a value leaves
  no trace. With only \<^verbatim>\<open>update_fn\<close> and \<^verbatim>\<open>finalize_fn\<close> set there are exactly two hook
  clauses, update before finalize.
\<close>

theorem CreateUDA_compile_clauses:
  assumes "CreateFunction_singlestore_signature h self = Inr sig"
    and "a2u (fn_library (cf_func self)) = Inr path"
  shows "CreateUDA_compile h self
           = Inr (''CREATE OR REPLACE AGGREGATE FUNCTION '' @ sig @ '' ''
                  @ str_join [newline]
                      ([''AS INFILE '' @ [squote] @ path @ [squote]]
                       @ hook_clause ''init_fn'' (fn_init_fn (cf_func self))
                       @ hook_clause ''update_fn'' (fn_update_fn (cf_func self))
                       @ hook_clause ''merge_fn'' (fn_merge_fn (cf_func self))
                       @ hook_clause ''serialize_fn'' (fn_serialize_fn (cf_func self))
                       @ hook_clause ''finalize_fn'' (fn_finalize_fn (cf_func self))))
         \<and> (\<forall>u f. fn_init_fn (cf_func self) = None \<and> fn_update_fn (cf_func self) = Some u
                \<and> fn_merge_fn (cf_func self) = None \<and> fn_serialize_fn (cf_func self) = None
                \<and> fn_finalize_fn (cf_func self) = Some f
              \<longrightarrow> CreateUDA_compile h self
                    = Inr (''CREATE OR REPLACE AGGREGATE FUNCTION '' @ sig @ '' ''
                           @ ''AS INFILE '' @ [squote] @ path @ [squote]
                           @ [newline] @ ''update_fn='' @ [dquote] @ u @ [dquote]
                           @ [newline] @ ''finalize_fn='' @ [dquote] @ f @ [dquote]))"
proof -
  let ?f = "cf_func self"
  let ?infile = "''AS INFILE '' @ [squote] @ path @ [squote]"
  have tokens: "foldl append_hook [?infile] (fn_values ?f)
      = [?infile] @ hook_clause ''init_fn'' (fn_init_fn ?f)
        @ hook_clause ''update_fn'' (fn_update_fn ?f)
        @ hook_clause ''merge_fn'' (fn_merge_fn ?f)
        @ hook_clause ''serialize_fn'' (fn_serialize_fn ?f)
        @ hook_clause ''finalize_fn'' (fn_finalize_fn ?f)"
    unfolding foldl_append_hook fn_values_def by simp
  have general: "CreateUDA_compile h self
           = Inr (''CREATE OR REPLACE AGGREGATE FUNCTION '' @ sig @ '' ''
                  @ str_join [newline]
                      ([?infile]
                       @ hook_clause ''init_fn'' (fn_init_fn ?f)
                       @ hook_clause ''update_fn'' (fn_update_fn ?f)
                       @ hook_clause ''merge_fn'' (fn_merge_fn ?f)
                       @ hook_clause ''serialize_fn'' (fn_serialize_fn ?f)
                       @ hook_clause ''finalize_fn'' (fn_finalize_fn ?f)))"
    using assms tokens by (simp add: CreateUDA_compile_def single_quoted_def)
  show ?thesis
    unfolding general by (simp add: hook_clause_def)
qed

theorem CreateUDA_compile_clauses_witness:
  "CreateUDA_compile sample_host
     \<lparr>cf_func = \<lparr>fn_name = ''agg'', fn_symbol = ''agg'', fn_inputs = [''int32''],
                 fn_output = ''int32'', fn_library = PyStr ''/lib/agg.so'',
                 fn_init_fn = None, fn_update_fn = Some ''upd'', fn_merge_fn = None,
                 fn_serialize_fn = None, fn_finalize_fn = Some ''fin''\<rparr>,
      cf_name = ''agg'', cf_database = Some ''db''\<rparr>
   = Inr (''CREATE OR REPLACE AGGREGATE FUNCTION db.agg(a INT NOT NULL) RETURNS INT NOT NULL ''
          @ ''AS INFILE '' @ [squote] @ ''/lib/agg.so'' @ [squote]
          @ [newline] @ ''update_fn='' @ [dquote] @ ''upd'' @ [dquote]
          @ [newline] @ ''finalize_fn='' @ [dquote] @ ''fin'' @ [dquote])"
proof -
  let ?self = "\<lparr>cf_func = \<lparr>fn_name = ''agg'', fn_symbol = ''agg'', fn_inputs = [''int32''],
                 fn_output = ''int32'', fn_library = PyStr ''/lib/agg.so'',
                 fn_init_fn = None, fn_update_fn = Some ''upd'', fn_merge_fn = None,
                 fn_serialize_fn = None, fn_finalize_fn = Some ''fin''\<rparr>,
      cf_name = ''agg'', cf_database = Some ''db''\<rparr>"
  have sig: "CreateFunction_singlestore_signature sample_host ?self
               = Inr ''db.agg(a INT NOT NULL) RETURNS INT NOT NULL''"
    by (simp add: CreateFunction_singlestore_signature_def singlestore_input_signature_def
        letter_at_def ascii_letters_def sample_host_def sample_scoped_name_def
        sample_type_to_sql_string_def)
  have lib: "a2u (fn_library (cf_func ?self)) = Inr ''/lib/agg.so''"
    by (simp add: a2u_def)
  show ?thesis
    using CreateUDA_compile_clauses [OF sig lib, THEN conjunct2, rule_format, of "''upd''" "''fin''"]
    by simp
qed

text \<open>
  What \<^verbatim>\<open>CreateUDF.compile\<close> does with the language, for a signature that renders and a
  library reference that is text: the two supported constants give \<^verbatim>\<open>AS WASM\<close> and
  \<^verbatim>\<open>AS PYTHON\<close>; for every other language the message of the error is built from the
  library reference alone.
\<close>

lemma CreateUDF_compile_language:
  assumes "CreateFunction_singlestore_signature h self = Inr sig"
    and "a2u (fn_library (cf_func self)) = Inr l"
    and "fn_type (cf_func self) = fn_TYPE_FILE (cf_func self)"
  shows "fn_language (cf_func self) = fn_LANGUAGE_WASM (cf_func self) \<Longrightarrow>
           CreateUDF_compile h self
             = Inr (''CREATE OR REPLACE FUNCTION '' @ sig @ '' AS WASM INFILE '' @ [squote] @ l @ [squote])"
    and "fn_language (cf_func self) \<noteq> fn_LANGUAGE_WASM (cf_func self) \<Longrightarrow>
         fn_language (cf_func self) = fn_LANGUAGE_PYTHON (cf_func self) \<Longrightarrow>
           CreateUDF_compile h self
             = Inr (''CREATE OR REPLACE FUNCTION '' @ sig @ '' AS PYTHON INFILE '' @ [squote] @ l @ [squote])"
    and "fn_language (cf_func self) \<noteq> fn_LANGUAGE_WASM (cf_func self) \<Longrightarrow>
         fn_language (cf_func self) \<noteq> fn_LANGUAGE_PYTHON (cf_func self) \<Longrightarrow>
           CreateUDF_compile h self
             = Inl (ValueError (''Unsupported function language: '' @ l @ [squote]))"
  using assms by (simp_all add: CreateUDF_compile_def single_quoted_def Let_def)

text \<open>
  Claim C2 says that for a language that is neither the WASM nor the Python constant,
  \<^verbatim>\<open>CreateUDF.compile\<close> raises an error whose message names the unsupported language. For
  the language \<^verbatim>\<open>native\<close> and the library \<^verbatim>\<open>/lib/f.so\<close> the message is
  \<^verbatim>\<open>Unsupported function language: /lib/f.so'\<close>: it holds the library, not the language.
\<close>

theorem CreateUDF_unsupported_language_message:
  "CreateUDF_compile sample_host
     \<lparr>cf_func = \<lparr>fn_name = ''f'', fn_symbol = ''f'', fn_inputs = [''int32''],
                 fn_output = ''int32'', fn_library = PyStr ''/lib/f.so'',
                 fn_language = ''native'', fn_LANGUAGE_WASM = ''wasm'',
                 fn_LANGUAGE_PYTHON = ''python'', fn_type = ''file'',
                 fn_TYPE_FILE = ''file'', fn_TYPE_MODULE = ''module''\<rparr>,
      cf_name = ''f'', cf_database = None\<rparr>
   = Inl (ValueError (''Unsupported function language: /lib/f.so'' @ [squote]))"
  by (simp add: CreateUDF_compile_def CreateFunction_singlestore_signature_def
      singlestore_input_signature_def letter_at_def ascii_letters_def sample_host_def
      sample_scoped_name_def sample_type_to_sql_string_def a2u_def)

text \<open>The literal of a module without content: the base64 text of two single quotes.\<close>

lemma empty_library_literal:
  "py_repr (or_empty_str PyNone) = [squote, squote]"
  "b64encode (encode_utf8 [squote, squote]) = ''Jyc=''"
  by (simp_all add: py_repr_def or_empty_str_def repr_str_def repr_quote_def encode_utf8_def Let_def
      encode_utf8_char_def b64_char_def)

text \<open>
  Claim C10. For a scalar function whose library type is the module constant and whose
  library content is \<^verbatim>\<open>None\<close>, \<^verbatim>\<open>CreateUDF.compile\<close> does not fail on the content: where
  the signature renders and the language is one of the two supported constants, the
  content falls back to the empty string, whose \<^verbatim>\<open>repr\<close> is two single quotes, and the
  statement ends in the quoted base64 text \<^verbatim>\<open>Jyc=\<close> of those two characters.
\<close>

theorem CreateUDF_module_without_content:
  assumes "CreateFunction_singlestore_signature h self = Inr sig"
    and "fn_language (cf_func self) = fn_LANGUAGE_WASM (cf_func self)
         \<or> fn_language (cf_func self) = fn_LANGUAGE_PYTHON (cf_func self)"
    and "fn_type (cf_func self) = fn_TYPE_MODULE (cf_func self)"
    and "fn_TYPE_MODULE (cf_func self) \<noteq> fn_TYPE_FILE (cf_func self)"
    and "fn_library (cf_func self) = PyNone"
  shows "CreateUDF_compile h self
           = Inr (''CREATE OR REPLACE FUNCTION '' @ sig
                  @ (if fn_language (cf_func self) = fn_LANGUAGE_WASM (cf_func self)
                     then '' AS WASM '' else '' AS PYTHON '')
                  @ [squote] @ ''Jyc='' @ [squote])
         \<and> ''Jyc='' = b64encode (encode_utf8 (repr_str []))
         \<and> repr_str [] = [squote, squote]"
proof -
  have lit: "b64encode (encode_utf8 (py_repr (or_empty_str (fn_library (cf_func self))))) = ''Jyc=''"
    using assms(5) by (simp only: empty_library_literal)
  have "CreateUDF_compile h self
           = Inr (''CREATE OR REPLACE FUNCTION '' @ sig
                  @ (if fn_language (cf_func self) = fn_LANGUAGE_WASM (cf_func self)
                     then '' AS WASM '' else '' AS PYTHON '')
                  @ [squote] @ ''Jyc='' @ [squote])"
    using assms(1-4) lit by (auto simp: CreateUDF_compile_def single_quoted_def Let_def)
  moreover have "repr_str [] = [squote, squote]"
    by (simp add: repr_str_def repr_quote_def Let_def)
  ultimately show ?thesis
    using empty_library_literal(2) by simp
qed

theorem CreateUDF_module_without_content_witness:
  "CreateUDF_compile sample_host
     \<lparr>cf_func = \<lparr>fn_name = ''f'', fn_symbol = ''f'', fn_inputs = [''int32''],
                 fn_output = ''string'', fn_library = PyNone,
                 fn_language = ''wasm'', fn_LANGUAGE_WASM = ''wasm'',
                 fn_LANGUAGE_PYTHON = ''python'', fn_type = ''module'',
                 fn_TYPE_FILE = ''file'', fn_TYPE_MODULE = ''module''\<rparr>,
      cf_name = ''f'', cf_database = None\<rparr>
   = Inr (''CREATE OR REPLACE FUNCTION f(a INT NOT NULL) RETURNS VARCHAR NOT NULL AS WASM ''
          @ [squote] @ ''Jyc='' @ [squote])"
proof -
  let ?self = "\<lparr>cf_func = \<lparr>fn_name = ''f'', fn_symbol = ''f'', fn_inputs = [''int32''],
                 fn_output = ''string'', fn_library = PyNone,
                 fn_language = ''wasm'', fn_LANGUAGE_WASM = ''wasm'',
                 fn_LANGUAGE_PYTHON = ''python'', fn_type = ''module'',
                 fn_TYPE_FILE = ''file'', fn_TYPE_MODULE = ''module''\<rparr>,
      cf_name = ''f'', cf_database = None\<rparr>"
  have sig: "CreateFunction_singlestore_signature sample_host ?self
               = Inr ''f(a INT NOT NULL) RETURNS VARCHAR NOT NULL''"
    by (simp add: CreateFunction_singlestore_signature_def singlestore_input_signature_def
        letter_at_def ascii_letters_def sample_host_def sample_scoped_name_def
        sample_type_to_sql_string_def)
  have lang: "fn_language (cf_func ?self) = fn_LANGUAGE_WASM (cf_func ?self)
         \<or> fn_language (cf_func ?self) = fn_LANGUAGE_PYTHON (cf_func ?self)" by simp
  have ty: "fn_type (cf_func ?self) = fn_TYPE_MODULE (cf_func ?self)" by simp
  have ne: "fn_TYPE_MODULE (cf_func ?self) \<noteq> fn_TYPE_FILE (cf_func ?self)" by simp
  have lib: "fn_library (cf_func ?self) = PyNone" by simp
  show ?thesis
    using CreateUDF_module_without_content [OF sig lang ty ne lib, THEN conjunct1]
    by simp
qed

end
